theory Spec2Isabelle
  imports Main "HOL-Library.AList"
begin

section \<open>JavaScript values\<close>

text \<open>
  Cells, rows and parsed responses are untyped in the source (\<open>any\<close>).  The model is the
  closed set of values that spreadsheet ingestion and \<open>JSON.parse\<close> can produce.  Strings
  are lists of code units (those below 256), numbers are the integers (whose \<open>String\<close>
  form is their decimal numeral); fractional numbers are outside the model.  An object is
  the list of its own properties in enumeration order, a missing property reads as
  \<open>JUndefined\<close>, and inherited properties are outside the model.
\<close>

datatype jsval =
    JUndefined
  | JNull
  | JBool bool
  | JNum int
  | JStr string
  | JArr "jsval list"
  | JObj "(string \<times> jsval) list"

type_synonym jsobject = "(string \<times> jsval) list"

definition rowGet :: "jsobject \<Rightarrow> string \<Rightarrow> jsval" where
  "rowGet row col = (case map_of row col of None \<Rightarrow> JUndefined | Some v \<Rightarrow> v)"

definition digitChar :: "nat \<Rightarrow> char" where
  "digitChar d = ''0123456789abcdef'' ! d"

fun showNat :: "nat \<Rightarrow> string" where
  "showNat n = (if n < 10 then [digitChar n] else showNat (n div 10) @ [digitChar (n mod 10)])"

declare showNat.simps [simp del]

definition showInt :: "int \<Rightarrow> string" where
  "showInt i = (if i < 0 then CHR ''-'' # showNat (nat (- i)) else showNat (nat i))"

fun joinWith :: "string \<Rightarrow> string list \<Rightarrow> string" where
  "joinWith sep [] = []"
| "joinWith sep [s] = s"
| "joinWith sep (s # t # ss) = s @ sep @ joinWith sep (t # ss)"

text \<open>\<open>String(v)\<close>: an array prints its elements separated by commas, with \<open>null\<close> and
  \<open>undefined\<close> elements printed as nothing.\<close>

fun String_js :: "jsval \<Rightarrow> string" where
  "String_js JUndefined = ''undefined''"
| "String_js JNull = ''null''"
| "String_js (JBool b) = (if b then ''true'' else ''false'')"
| "String_js (JNum i) = showInt i"
| "String_js (JStr s) = s"
| "String_js (JArr vs) =
     joinWith '','' (map (\<lambda>v. if v = JNull \<or> v = JUndefined then [] else String_js v) vs)"
| "String_js (JObj ps) = ''[object Object]''"

text \<open>\<open>JSON.stringify\<close>.  Its result is \<open>undefined\<close> (here \<open>None\<close>) on \<open>undefined\<close>; inside
  an array such an element prints as \<open>null\<close>, inside an object the property is left out.\<close>

definition jsonEscapeChar :: "char \<Rightarrow> string" where
  "jsonEscapeChar c =
     (if c = CHR 0x22 then [CHR 0x5C, CHR 0x22]
      else if c = CHR 0x5C then [CHR 0x5C, CHR 0x5C]
      else if c = CHR 0x08 then [CHR 0x5C, CHR ''b'']
      else if c = CHR 0x0C then [CHR 0x5C, CHR ''f'']
      else if c = CHR 0x0A then [CHR 0x5C, CHR ''n'']
      else if c = CHR 0x0D then [CHR 0x5C, CHR ''r'']
      else if c = CHR 0x09 then [CHR 0x5C, CHR ''t'']
      else if (of_char c :: nat) < 32
        then [CHR 0x5C, CHR ''u'', CHR ''0'', CHR ''0'',
              digitChar ((of_char c :: nat) div 16), digitChar ((of_char c :: nat) mod 16)]
      else [c])"

definition jsonQuote :: "string \<Rightarrow> string" where
  "jsonQuote s = CHR 0x22 # concat (map jsonEscapeChar s) @ [CHR 0x22]"

fun JSON_stringify :: "jsval \<Rightarrow> string option" where
  "JSON_stringify JUndefined = None"
| "JSON_stringify JNull = Some ''null''"
| "JSON_stringify (JBool b) = Some (if b then ''true'' else ''false'')"
| "JSON_stringify (JNum i) = Some (showInt i)"
| "JSON_stringify (JStr s) = Some (jsonQuote s)"
| "JSON_stringify (JArr vs) =
     Some (''['' @ joinWith '',''
        (map (\<lambda>v. case JSON_stringify v of None \<Rightarrow> ''null'' | Some s \<Rightarrow> s) vs) @ '']'')"
| "JSON_stringify (JObj ps) =
     Some (''{'' @ joinWith '',''
        (concat (map (\<lambda>(k, v). case JSON_stringify v of None \<Rightarrow> []
                                  | Some s \<Rightarrow> [jsonQuote k @ '':'' @ s]) ps)) @ ''}'')"

section \<open>Key normalisation\<close>

text \<open>The white space that \<open>trim\<close> removes, among the code units below 256: tab, line
  feed, vertical tab, form feed, carriage return, space and no-break space.\<close>

definition isWhitespace :: "char \<Rightarrow> bool" where
  "isWhitespace c =
     (c \<in> set [CHR 0x09, CHR 0x0A, CHR 0x0B, CHR 0x0C, CHR 0x0D, CHR 0x20, CHR 0xA0])"

definition trim :: "string \<Rightarrow> string" where
  "trim s = rev (dropWhile isWhitespace (rev (dropWhile isWhitespace s)))"

definition normalizeKey :: "jsval \<Rightarrow> string" where
  "normalizeKey v = (if v = JNull \<or> v = JUndefined then [] else trim (String_js v))"

section \<open>Files, candidates and join types\<close>

text \<open>Of \<open>ParsedFile\<close> the join engine reads the name and the rows; \<open>createJoinedFile\<close>
  also fills the headers.  The random id, the byte size, the preview slice, the row count
  and the chat context play no part in what is verified here and are left out.\<close>

record ParsedFile =
  name :: string
  headers :: "string list"
  data :: "jsobject list"

record ColumnMapping =
  fileName :: string
  columnName :: string

record JoinCandidate =
  keyName :: string
  columnMappings :: "ColumnMapping list"

datatype JoinType = INNER | OUTER | LEFT | ADDITIVE | AI_SEMANTIC

record JoinStats =
  statINNER :: nat
  statOUTER :: nat
  statLEFT :: nat
  statADDITIVE :: nat
  statAI_SEMANTIC :: nat


definition getKeyColumnForFile :: "ParsedFile \<Rightarrow> JoinCandidate \<Rightarrow> string option" where
  "getKeyColumnForFile file candidate =
     map_option columnName (find (\<lambda>m. fileName m = name file) (columnMappings candidate))"

section \<open>Key counts and the estimate\<close>

text \<open>A \<open>Map\<close> is the list of its entries in insertion order: \<open>get\<close> is \<open>map_of\<close>, and
  \<open>set\<close> replaces the value of a key in place or appends a new entry (\<open>AList.update\<close>).
  A \<open>Set\<close> is the list of its elements in insertion order.\<close>

definition countRow :: "string \<Rightarrow> jsobject \<Rightarrow> (string \<times> nat) list \<Rightarrow> (string \<times> nat) list" where
  "countRow keyCol row counts =
     (let rawVal = rowGet row keyCol; v = normalizeKey rawVal in
      if v \<noteq> [] then
        AList.update v ((case map_of counts v of None \<Rightarrow> 0 | Some c \<Rightarrow> c) + 1) counts
      else counts)"

definition getKeyCountsFromFile :: "ParsedFile \<Rightarrow> JoinCandidate \<Rightarrow> (string \<times> nat) list" where
  "getKeyCountsFromFile file candidate =
     (case getKeyColumnForFile file candidate of
        None \<Rightarrow> []
      | Some keyCol \<Rightarrow> if keyCol = [] then [] else fold (countRow keyCol) (data file) [])"

definition setAdd :: "'a \<Rightarrow> 'a list \<Rightarrow> 'a list" where
  "setAdd k s = (if k \<in> set s then s else s @ [k])"

definition collectKeys :: "('k \<times> 'v) list list \<Rightarrow> 'k list" where
  "collectKeys maps = fold (\<lambda>m allKeys. fold setAdd (map fst m) allKeys) maps []"

definition statsStep :: "(string \<times> nat) list list \<Rightarrow> string \<Rightarrow> nat \<times> nat \<times> nat \<Rightarrow> nat \<times> nat \<times> nat" where
  "statsStep fileKeyCounts key = (\<lambda>(innerCount, outerCount, leftCount).
     (let counts = map (\<lambda>m. case map_of m key of None \<Rightarrow> 0 | Some c \<Rightarrow> c) fileKeyCounts;
          product = fold (\<lambda>c acc. acc * c) counts 1;
          outerProduct = fold (\<lambda>c acc. acc * (if c = 0 then 1 else c)) counts 1
      in (innerCount + product,
          outerCount + outerProduct,
          (case counts of
             [] \<Rightarrow> leftCount
           | c0 # rest \<Rightarrow>
               if c0 > 0
               then leftCount + c0 * fold (\<lambda>c acc. acc * (if c = 0 then 1 else c)) rest 1
               else leftCount))))"

definition calculateJoinStats :: "ParsedFile list \<Rightarrow> JoinCandidate \<Rightarrow> JoinStats" where
  "calculateJoinStats files candidate =
     (let fileKeyCounts = map (\<lambda>f. getKeyCountsFromFile f candidate) files in
      if length fileKeyCounts = 0 then
        \<lparr>statINNER = 0, statOUTER = 0, statLEFT = 0, statADDITIVE = 0, statAI_SEMANTIC = 0\<rparr>
      else
        (let allKeys = collectKeys fileKeyCounts;
             (innerCount, outerCount, leftCount) =
                fold (statsStep fileKeyCounts) allKeys (0, 0, 0)
         in \<lparr>statINNER = innerCount, statOUTER = outerCount, statLEFT = leftCount,
              statADDITIVE = outerCount, statAI_SEMANTIC = 0\<rparr>))"

section \<open>Executing the join\<close>

definition groupRow :: "string \<Rightarrow> jsobject \<Rightarrow> (string \<times> jsobject list) list \<Rightarrow> (string \<times> jsobject list) list" where
  "groupRow keyCol row m =
     (let v = normalizeKey (rowGet row keyCol) in
      if v \<noteq> [] then
        (let m1 = (if map_of m v = None then AList.update v [] m else m) in
         case map_of m1 v of
           None \<Rightarrow> m1
         | Some rows \<Rightarrow> AList.update v (rows @ [row]) m1)
      else m)"

definition fileDataMap :: "ParsedFile \<Rightarrow> JoinCandidate \<Rightarrow> (string \<times> jsobject list) list" where
  "fileDataMap file candidate =
     (case getKeyColumnForFile file candidate of
        None \<Rightarrow> []
      | Some keyCol \<Rightarrow> if keyCol = [] then [] else fold (groupRow keyCol) (data file) [])"

definition cartesian :: "'a list list \<Rightarrow> 'a list list" where
  "cartesian arrays = fold (\<lambda>curr acc. concat (map (\<lambda>a. map (\<lambda>c. a @ [c]) curr) acc)) arrays [[]]"

text \<open>A position of a combination is a row or the \<open>null\<close> placeholder (\<open>None\<close>).\<close>

definition rowsPerFile :: "ParsedFile list \<Rightarrow> (string \<times> jsobject list) list list \<Rightarrow> string \<Rightarrow> jsobject option list list" where
  "rowsPerFile files fileDataMaps key =
     map (\<lambda>index. case map_of (fileDataMaps ! index) key of
                    Some rows \<Rightarrow> if length rows > 0 then map Some rows else [None]
                  | None \<Rightarrow> [None])
         [0..<length files]"

text \<open>\<open>name.replace(/\.[^/.]+$/, "")\<close> removes the leftmost match: a dot followed, up to the
  end of the name, by at least one character that is neither a slash nor a dot.\<close>

definition isExtensionTail :: "string \<Rightarrow> bool" where
  "isExtensionTail s = (s \<noteq> [] \<and> list_all (\<lambda>c. c \<noteq> CHR ''/'' \<and> c \<noteq> CHR ''.'') s)"

fun stripExtension :: "string \<Rightarrow> string" where
  "stripExtension [] = []"
| "stripExtension (c # cs) =
     (if c = CHR ''.'' \<and> isExtensionTail cs then [] else c # stripExtension cs)"

definition isAlnum :: "char \<Rightarrow> bool" where
  "isAlnum c = (c \<in> set ''abcdefghijklmnopqrstuvwxyzABCDEFGHIJKLMNOPQRSTUVWXYZ0123456789'')"

definition cleanFileName :: "string \<Rightarrow> string" where
  "cleanFileName nm = map (\<lambda>c. if isAlnum c then c else CHR ''_'') (stripExtension nm)"

definition newColName :: "string \<Rightarrow> string \<Rightarrow> string" where
  "newColName nm col = cleanFileName nm @ '' - '' @ col"

definition addColumns :: "ParsedFile \<Rightarrow> JoinCandidate \<Rightarrow> jsobject \<Rightarrow> jsobject \<Rightarrow> jsobject" where
  "addColumns file candidate row joinedRow =
     (let keyCol = getKeyColumnForFile file candidate in
      fold (\<lambda>(col, v) jr.
              if Some col = keyCol then jr
              else AList.update (newColName (name file) col) v jr)
           row joinedRow)"

text \<open>The loop over a combination carries the record under construction and the two name
  lists.  A combination has one position per file (lemma \<open>cartesian_length\<close> below), so
  \<open>files[fileIndex]\<close> is the file zipped with the position.\<close>

definition comboStep :: "JoinCandidate \<Rightarrow> ParsedFile \<times> jsobject option \<Rightarrow> jsobject \<times> string list \<times> string list \<Rightarrow> jsobject \<times> string list \<times> string list" where
  "comboStep candidate = (\<lambda>(file, row) (joinedRow, foundInFiles, missingInFiles).
     (case row of
        Some r \<Rightarrow> (addColumns file candidate r joinedRow, foundInFiles @ [name file], missingInFiles)
      | None \<Rightarrow> (joinedRow, foundInFiles, missingInFiles @ [name file])))"

definition joinStatus :: "ParsedFile list \<Rightarrow> string list \<Rightarrow> string list \<Rightarrow> string" where
  "joinStatus files foundInFiles missingInFiles =
     (if length missingInFiles = 0 then ''Matched (All Files)''
      else if length foundInFiles = 1 then ''Unique to '' @ hd foundInFiles
      else ''Partial Match (Found in '' @ showNat (length foundInFiles) @ ''/''
             @ showNat (length files) @ '')'')"

definition foundFlag :: "string list \<Rightarrow> ParsedFile \<Rightarrow> jsobject \<Rightarrow> jsobject" where
  "foundFlag foundInFiles f joinedRow =
     AList.update (''_Found_In_'' @ cleanFileName (name f))
       (JStr (if name f \<in> set foundInFiles then ''TRUE'' else ''FALSE'')) joinedRow"

definition joinedRowOf :: "ParsedFile list \<Rightarrow> JoinCandidate \<Rightarrow> JoinType \<Rightarrow> string \<Rightarrow> jsobject option list \<Rightarrow> jsobject" where
  "joinedRowOf files candidate joinType key combo =
     (let (joinedRow, foundInFiles, missingInFiles) =
            fold (comboStep candidate) (zip files combo) ([(keyName candidate, JStr key)], [], [])
      in if joinType = ADDITIVE then
           fold (foundFlag foundInFiles) files
             (AList.update ''_Join_Status''
                (JStr (joinStatus files foundInFiles missingInFiles)) joinedRow)
         else joinedRow)"

definition joinKey :: "ParsedFile list \<Rightarrow> JoinCandidate \<Rightarrow> JoinType \<Rightarrow> (string \<times> jsobject list) list list \<Rightarrow> string \<Rightarrow> jsobject list \<Rightarrow> jsobject list" where
  "joinKey files candidate joinType fileDataMaps key result =
     (let rpf = rowsPerFile files fileDataMaps key;
          hasDataInFile = map (\<lambda>arr. case arr of [] \<Rightarrow> True | r # _ \<Rightarrow> r \<noteq> None) rpf
      in if joinType = INNER \<and> list_ex (\<lambda>hasData. \<not> hasData) hasDataInFile then result
         else if joinType = LEFT \<and> (case hasDataInFile of [] \<Rightarrow> True | h # _ \<Rightarrow> \<not> h) then result
         else result @ map (joinedRowOf files candidate joinType key) (cartesian rpf))"

definition joinDatasets :: "ParsedFile list \<Rightarrow> JoinCandidate \<Rightarrow> JoinType \<Rightarrow> jsobject list" where
  "joinDatasets files candidate joinType =
     (let fileDataMaps = map (\<lambda>file. fileDataMap file candidate) files;
          allKeys = collectKeys fileDataMaps
      in fold (joinKey files candidate joinType fileDataMaps) allKeys [])"

section \<open>Sanitising joined rows\<close>

text \<open>\<open>typeof v === 'object'\<close> holds of \<open>null\<close>, of arrays and of objects.\<close>

definition typeofObject :: "jsval \<Rightarrow> bool" where
  "typeofObject v = (case v of JNull \<Rightarrow> True | JArr _ \<Rightarrow> True | JObj _ \<Rightarrow> True | _ \<Rightarrow> False)"

text \<open>\<open>val.map(v => typeof v === 'object' ? JSON.stringify(v) : String(v)).join(' | ')\<close>;
  \<open>join\<close> prints an \<open>undefined\<close> element as nothing.\<close>

definition flattenArray :: "jsval list \<Rightarrow> string" where
  "flattenArray vs =
     joinWith '' | ''
       (map (\<lambda>v. if typeofObject v then (case JSON_stringify v of None \<Rightarrow> [] | Some s \<Rightarrow> s)
                  else String_js v) vs)"




section \<open>Handling the response of the semantic merge\<close>

text \<open>The own enumerable properties of a parsed value: those of an object, and the
  indices of an array.\<close>

definition objectEntries :: "jsval \<Rightarrow> (string \<times> jsval) list" where
  "objectEntries v =
     (case v of JObj ps \<Rightarrow> ps | JArr vs \<Rightarrow> zip (map showNat [0..<length vs]) vs | _ \<Rightarrow> [])"

definition cleanCell :: "jsval \<Rightarrow> jsval" where
  "cleanCell v =
     (if v = JNull \<or> v = JUndefined then JNull
      else (case v of
              JArr vs \<Rightarrow> JStr (flattenArray vs)
            | _ \<Rightarrow> if typeofObject v
                   then (case JSON_stringify v of None \<Rightarrow> JUndefined | Some s \<Rightarrow> JStr s)
                   else v))"

definition cleanRow :: "jsval \<Rightarrow> jsobject" where
  "cleanRow row =
     (if \<not> typeofObject row \<or> row = JNull then []
      else fold (\<lambda>key acc. AList.update key (cleanCell (rowGet (objectEntries row) key)) acc)
                (map fst (objectEntries row)) [])"

text \<open>The call to the reasoning service either fails (no API key, a rejected request), and
  then the function rejects with its own error, or answers with a response whose \<open>text\<close>
  may be absent.  \<open>JSON.parse\<close> belongs to the platform and is a parameter: \<open>None\<close> is its
  \<open>SyntaxError\<close>, which the source catches.\<close>

datatype mergeError = MergeFailed

datatype apiOutcome = ApiFailure | ApiResponse "string option"

definition generateSemanticMerge :: "(string \<Rightarrow> jsval option) \<Rightarrow> apiOutcome \<Rightarrow> mergeError + jsobject list" where
  "generateSemanticMerge JSON_parse outcome =
     (case outcome of
        ApiFailure \<Rightarrow> Inl MergeFailed
      | ApiResponse text \<Rightarrow>
          (case text of
             None \<Rightarrow> Inr []
           | Some t \<Rightarrow>
               if t = [] then Inr []
               else (case JSON_parse t of
                       None \<Rightarrow> Inr []
                     | Some rawResult \<Rightarrow>
                         (case rawResult of
                            JArr rows \<Rightarrow> Inr (map cleanRow rows)
                          | _ \<Rightarrow> Inr []))))"

section \<open>Example inputs\<close>

subsection \<open>The two-file scenario\<close>

text \<open>Customers \<open>101\<close> to \<open>105\<close>, once each, and orders with the key occurrences
  \<open>101\<close> twice, \<open>102\<close> once, \<open>103\<close> twice and \<open>999\<close> once.  The order keys are text
  cells, one of them padded with blanks; the customer keys are numbers.\<close>

definition customerRow :: "int \<Rightarrow> string \<Rightarrow> jsobject" where
  "customerRow i nm = [(''CustomerID'', JNum i), (''Name'', JStr nm)]"

definition orderRow :: "string \<Rightarrow> string \<Rightarrow> jsobject" where
  "orderRow ref item = [(''OrderID'', JStr item), (''Cust_Ref_ID'', JStr ref)]"

definition scenarioCustomers :: ParsedFile where
  "scenarioCustomers =
     \<lparr>name = ''customers.csv'', headers = [''CustomerID'', ''Name''],
      data = [customerRow 101 ''Ann'', customerRow 102 ''Bob'', customerRow 103 ''Cy'',
              customerRow 104 ''Di'', customerRow 105 ''Ed'']\<rparr>"

definition scenarioOrders :: ParsedFile where
  "scenarioOrders =
     \<lparr>name = ''orders.csv'', headers = [''OrderID'', ''Cust_Ref_ID''],
      data = [orderRow ''101'' ''A1'', orderRow '' 101 '' ''A2'', orderRow ''102'' ''B1'',
              orderRow ''103'' ''C1'', orderRow ''103'' ''C2'', orderRow ''999'' ''Z1'']\<rparr>"

definition scenarioCandidate :: JoinCandidate where
  "scenarioCandidate =
     \<lparr>keyName = ''Customer ID'',
      columnMappings = [\<lparr>fileName = ''customers.csv'', columnName = ''CustomerID''\<rparr>,
                        \<lparr>fileName = ''orders.csv'', columnName = ''Cust_Ref_ID''\<rparr>]\<rparr>"

subsection \<open>Further inputs\<close>



definition customersOnlyCandidate :: JoinCandidate where
  "customersOnlyCandidate =
     \<lparr>keyName = ''Customer ID'',
      columnMappings = [\<lparr>fileName = ''customers.csv'', columnName = ''CustomerID''\<rparr>]\<rparr>"











definition toyParse :: "string \<Rightarrow> jsval option" where
  "toyParse s =
     (if s = ''[\"x\",null,{\"a\":[1]}]'' then Some (JArr [JStr ''x'', JNull, JObj [(''a'', JArr [JNum 1])]])
      else if s = ''{\"rows\":[]}'' then Some (JObj [(''rows'', JArr [])])
      else if s = ''[[7]]'' then Some (JArr [JArr [JNum 7]])
      else None)"

section \<open>Notions used in the statements\<close>

subsection \<open>Keys and groups of a file\<close>

text \<open>The normalized key of a row, the rows of a file that carry a given key, in the
  file's row order, and the non-empty keys of a file, in row order.  A file takes part
  only when the candidate maps it to a column with a non-empty name.\<close>

definition rowKey :: "string \<Rightarrow> jsobject \<Rightarrow> string" where
  "rowKey keyCol row = normalizeKey (rowGet row keyCol)"

definition keyGroup :: "string \<Rightarrow> jsobject list \<Rightarrow> string \<Rightarrow> jsobject list" where
  "keyGroup keyCol rows key = filter (\<lambda>row. key \<noteq> [] \<and> rowKey keyCol row = key) rows"

definition keyedKeys :: "string \<Rightarrow> jsobject list \<Rightarrow> string list" where
  "keyedKeys keyCol rows = filter (\<lambda>k. k \<noteq> []) (map (rowKey keyCol) rows)"

definition mappedKeyColumn :: "ParsedFile \<Rightarrow> JoinCandidate \<Rightarrow> string option" where
  "mappedKeyColumn file candidate =
     (case getKeyColumnForFile file candidate of
        None \<Rightarrow> None
      | Some keyCol \<Rightarrow> if keyCol = [] then None else Some keyCol)"

definition fileKeys :: "ParsedFile \<Rightarrow> JoinCandidate \<Rightarrow> string list" where
  "fileKeys file candidate =
     (case mappedKeyColumn file candidate of None \<Rightarrow> [] | Some keyCol \<Rightarrow> keyedKeys keyCol (data file))"

definition fileGroup :: "ParsedFile \<Rightarrow> JoinCandidate \<Rightarrow> string \<Rightarrow> jsobject list" where
  "fileGroup file candidate key =
     (case mappedKeyColumn file candidate of None \<Rightarrow> [] | Some keyCol \<Rightarrow> keyGroup keyCol (data file) key)"

definition occurrences :: "ParsedFile \<Rightarrow> JoinCandidate \<Rightarrow> string \<Rightarrow> nat" where
  "occurrences file candidate key = count_list (fileKeys file candidate) key"

definition keyUnion :: "ParsedFile list \<Rightarrow> JoinCandidate \<Rightarrow> string set" where
  "keyUnion files candidate = (\<Union>f\<in>set files. set (fileKeys f candidate))"

definition firstOccurrences :: "'a list \<Rightarrow> 'a list" where
  "firstOccurrences xs = rev (remdups (rev xs))"

subsection \<open>Counts and the terms of the estimate\<close>

text \<open>The sizes of the groups of an index, the count vector of a key, and the three
  per-key terms that the estimate adds up.\<close>

definition groupSizes :: "('k \<times> 'a list) list \<Rightarrow> ('k \<times> nat) list" where
  "groupSizes m = map (\<lambda>(k, g). (k, length g)) m"

definition groupCount :: "('k \<times> 'a list) list \<Rightarrow> 'k \<Rightarrow> nat" where
  "groupCount m key = (case map_of m key of None \<Rightarrow> 0 | Some rows \<Rightarrow> length rows)"

definition countsAt :: "('k \<times> nat) list list \<Rightarrow> 'k \<Rightarrow> nat list" where
  "countsAt fileKeyCounts key = map (\<lambda>m. case map_of m key of None \<Rightarrow> 0 | Some c \<Rightarrow> c) fileKeyCounts"

definition orOne :: "nat \<Rightarrow> nat" where
  "orOne c = (if c = 0 then 1 else c)"

definition innerTerm :: "nat list \<Rightarrow> nat" where
  "innerTerm counts = prod_list counts"

definition outerTerm :: "nat list \<Rightarrow> nat" where
  "outerTerm counts = prod_list (map orOne counts)"

definition leftTerm :: "nat list \<Rightarrow> nat" where
  "leftTerm counts = (case counts of [] \<Rightarrow> 0 | c0 # rest \<Rightarrow> if c0 > 0 then c0 * prod_list (map orOne rest) else 0)"

subsection \<open>Combinations\<close>

text \<open>The slot of a file for a key is its group, or the single placeholder when the group is
  empty.  The nested product lets the first list vary slowest.  A combination survives
  INNER when it has no placeholder, LEFT when its first position is a row, and always
  otherwise.\<close>

definition placeholders :: "'a list option \<Rightarrow> 'a option list" where
  "placeholders g = (case g of Some rows \<Rightarrow> if length rows > 0 then map Some rows else [None] | None \<Rightarrow> [None])"

definition slotRows :: "'a list \<Rightarrow> 'a option list" where
  "slotRows g = (if g = [] then [None] else map Some g)"

fun nestedProduct :: "'a list list \<Rightarrow> 'a list list" where
  "nestedProduct [] = [[]]"
| "nestedProduct (xs # xss) = concat (map (\<lambda>x. map (\<lambda>rest. x # rest) (nestedProduct xss)) xs)"

definition survives :: "JoinType \<Rightarrow> 'a option list \<Rightarrow> bool" where
  "survives jt combo =
     (case jt of
        INNER \<Rightarrow> None \<notin> set combo
      | LEFT \<Rightarrow> (case combo of [] \<Rightarrow> False | r # _ \<Rightarrow> r \<noteq> None)
      | _ \<Rightarrow> True)"

subsection \<open>Values of records\<close>


definition isPrimitive :: "jsval \<Rightarrow> bool" where
  "isPrimitive v = (case v of JBool _ \<Rightarrow> True | JNum _ \<Rightarrow> True | JStr _ \<Rightarrow> True | _ \<Rightarrow> False)"




subsection \<open>Generated column names\<close>



subsection \<open>The status of a combination\<close>




section \<open>Lemmas about the join engine\<close>

lemma fold_mult_prod_list:
  "fold (\<lambda>c acc. acc * f c) cs (a::nat) = a * prod_list (map f cs)"
  by (induction cs arbitrary: a) (simp_all add: mult.assoc)

lemma cartesian_Nil: "cartesian [] = [[]]"
  by (simp add: cartesian_def)

lemma cartesian_snoc:
  "cartesian (xss @ [ys]) = concat (map (\<lambda>a. map (\<lambda>c. a @ [c]) ys) (cartesian xss))"
  by (simp add: cartesian_def)



lemma cartesian_length: "combo \<in> set (cartesian xss) \<Longrightarrow> length combo = length xss"
  by (induction xss arbitrary: combo rule: rev_induct) (auto simp: cartesian_Nil cartesian_snoc)

lemma rowsPerFile_map:
  "length maps = length files \<Longrightarrow>
   rowsPerFile files maps key = map (\<lambda>m. placeholders (map_of m key)) maps"
proof -
  assume len: "length maps = length files"
  let ?F = "\<lambda>m. placeholders (map_of m key)"
  have "rowsPerFile files maps key = map (\<lambda>index. ?F (maps ! index)) [0..<length maps]"
    unfolding rowsPerFile_def placeholders_def len ..
  also have "\<dots> = map ?F (map ((!) maps) [0..<length maps])"
    by (simp only: map_map o_def)
  also have "\<dots> = map ?F maps"
    by (simp only: map_nth)
  finally show ?thesis .
qed

lemma groupSizes_keys: "map fst (groupSizes m) = map fst m"
  by (induction m) (auto simp: groupSizes_def)

lemma map_of_groupSizes: "map_of (groupSizes m) k = map_option length (map_of m k)"
  by (induction m) (auto simp: groupSizes_def)

lemma groupSizes_update:
  "groupSizes (AList.update k g m) = AList.update k (length g) (groupSizes m)"
  by (induction m) (auto simp: groupSizes_def)

lemma countRow_groupRow:
  "countRow keyCol row (groupSizes m) = groupSizes (groupRow keyCol row m)"
  by (cases "map_of m (normalizeKey (rowGet row keyCol))")
     (simp_all add: countRow_def groupRow_def Let_def map_of_groupSizes groupSizes_update
        AList.update_conv')

lemma fold_countRow_groupRow:
  "fold (countRow keyCol) rows (groupSizes m) = groupSizes (fold (groupRow keyCol) rows m)"
  by (induction rows arbitrary: m) (simp_all add: countRow_groupRow)

lemma getKeyCounts_groupSizes:
  "getKeyCountsFromFile file candidate = groupSizes (fileDataMap file candidate)"
proof -
  have e: "groupSizes ([] :: (string \<times> jsobject list) list) = []" by (simp add: groupSizes_def)
  show ?thesis
    using fold_countRow_groupRow [of _ "data file" "[]"]
    by (simp add: getKeyCountsFromFile_def fileDataMap_def e split: option.splits)
qed

lemma set_firstOccurrences [simp]: "set (firstOccurrences xs) = set xs"
  by (simp add: firstOccurrences_def)

lemma distinct_firstOccurrences [simp]: "distinct (firstOccurrences xs)"
  by (simp add: firstOccurrences_def)

lemma firstOccurrences_Nil [simp]: "firstOccurrences [] = []"
  by (simp add: firstOccurrences_def)

lemma firstOccurrences_snoc:
  "firstOccurrences (xs @ [x]) = setAdd x (firstOccurrences xs)"
  by (simp add: firstOccurrences_def setAdd_def)

lemma fold_setAdd:
  "fold setAdd ks (firstOccurrences pre) = firstOccurrences (pre @ ks)"
proof (induction ks arbitrary: pre)
  case Nil
  show ?case by simp
next
  case (Cons k ks)
  have "fold setAdd (k # ks) (firstOccurrences pre) = fold setAdd ks (firstOccurrences (pre @ [k]))"
    by (simp add: firstOccurrences_snoc)
  also have "\<dots> = firstOccurrences ((pre @ [k]) @ ks)"
    by (rule Cons.IH)
  finally show ?case by simp
qed

lemma fold_collect:
  "fold (\<lambda>m allKeys. fold setAdd (map fst m) allKeys) maps (firstOccurrences pre)
     = firstOccurrences (pre @ concat (map (map fst) maps))"
proof (induction maps arbitrary: pre)
  case Nil
  show ?case by simp
next
  case (Cons m maps)
  show ?case
    using Cons.IH [of "pre @ map fst m"] by (simp add: fold_setAdd)
qed

lemma collectKeys_firstOccurrences:
  "collectKeys maps = firstOccurrences (concat (map (map fst) maps))"
  using fold_collect [of maps "[]"] by (simp add: collectKeys_def)

lemma collectKeys_groupSizes: "collectKeys (map groupSizes maps) = collectKeys maps"
  by (simp add: collectKeys_firstOccurrences o_def groupSizes_keys)

lemma statsStep_terms:
  "statsStep fkc key (a, b, c) =
     (a + innerTerm (countsAt fkc key), b + outerTerm (countsAt fkc key), c + leftTerm (countsAt fkc key))"
proof -
  have o: "\<And>cs. fold (\<lambda>c acc. acc * (if c = 0 then 1 else c)) cs (1::nat) = prod_list (map orOne cs)"
    using fold_mult_prod_list [of orOne _ 1] by (simp add: orOne_def)
  have i: "\<And>cs. fold (\<lambda>c acc. acc * c) cs (1::nat) = prod_list cs"
    using fold_mult_prod_list [of "\<lambda>c. c" _ 1] by simp
  show ?thesis
    unfolding statsStep_def Let_def o i countsAt_def [symmetric]
    by (simp add: innerTerm_def outerTerm_def leftTerm_def split: list.splits)
qed

lemma fold_statsStep:
  "fold (statsStep fkc) ks (a, b, c) =
     (a + sum_list (map (\<lambda>k. innerTerm (countsAt fkc k)) ks),
      b + sum_list (map (\<lambda>k. outerTerm (countsAt fkc k)) ks),
      c + sum_list (map (\<lambda>k. leftTerm (countsAt fkc k)) ks))"
  by (induction ks arbitrary: a b c) (simp_all add: statsStep_terms add.assoc)

lemma joinKey_append:
  "joinKey files candidate jt maps key result = result @ joinKey files candidate jt maps key []"
  by (simp add: joinKey_def Let_def)

lemma fold_joinKey:
  "fold (joinKey files candidate jt maps) ks result
     = result @ concat (map (\<lambda>k. joinKey files candidate jt maps k []) ks)"
proof (induction ks arbitrary: result)
  case Nil
  show ?case by simp
next
  case (Cons k ks)
  show ?case
    using Cons.IH [of "joinKey files candidate jt maps k result"]
      joinKey_append [of files candidate jt maps k result]
    by simp
qed

lemma joinDatasets_concat:
  "joinDatasets files candidate jt =
     concat (map (\<lambda>k. joinKey files candidate jt (map (\<lambda>f. fileDataMap f candidate) files) k [])
                 (collectKeys (map (\<lambda>f. fileDataMap f candidate) files)))"
  by (simp add: joinDatasets_def Let_def fold_joinKey)

lemma countsAt_groupSizes: "countsAt (map groupSizes maps) key = map (\<lambda>m. groupCount m key) maps"
  by (simp add: countsAt_def groupCount_def map_of_groupSizes o_def split: option.splits)


lemma hasData_placeholders:
  "(case placeholders (map_of m key) of [] \<Rightarrow> True | r # _ \<Rightarrow> r \<noteq> None) = (groupCount m key > 0)"
  by (cases "map_of m key") (auto simp: placeholders_def groupCount_def split: list.splits)



lemma innerTerm_zero: "0 \<in> set cs \<Longrightarrow> innerTerm cs = 0"
  by (simp add: innerTerm_def prod_list_zero_iff)



lemma calculateJoinStats_sums:
  "calculateJoinStats files candidate =
     (let fkc = map (\<lambda>f. getKeyCountsFromFile f candidate) files; ks = collectKeys fkc in
      \<lparr>statINNER = sum_list (map (\<lambda>k. innerTerm (countsAt fkc k)) ks),
       statOUTER = sum_list (map (\<lambda>k. outerTerm (countsAt fkc k)) ks),
       statLEFT = sum_list (map (\<lambda>k. leftTerm (countsAt fkc k)) ks),
       statADDITIVE = sum_list (map (\<lambda>k. outerTerm (countsAt fkc k)) ks),
       statAI_SEMANTIC = 0\<rparr>)"
proof (cases files)
  case Nil
  then show ?thesis
    by (simp add: calculateJoinStats_def collectKeys_def)
next
  case (Cons f fs)
  then show ?thesis
    by (simp add: calculateJoinStats_def Let_def fold_statsStep)
qed


lemma groupRow_unkeyed: "rowKey keyCol row = [] \<Longrightarrow> groupRow keyCol row m = m"
  by (simp add: groupRow_def rowKey_def)

lemma groupRow_keys:
  "rowKey keyCol row \<noteq> [] \<Longrightarrow> map fst (groupRow keyCol row m) = setAdd (rowKey keyCol row) (map fst m)"
  by (cases "map_of m (rowKey keyCol row)")
     (auto simp: groupRow_def rowKey_def Let_def AList.update_keys AList.update_conv' setAdd_def
        dest: map_of_eq_None_iff [THEN iffD1] weak_map_of_SomeI)

lemma groupRow_map_of:
  "rowKey keyCol row \<noteq> [] \<Longrightarrow>
   map_of (groupRow keyCol row m) =
     (map_of m)(rowKey keyCol row \<mapsto>
        (case map_of m (rowKey keyCol row) of None \<Rightarrow> [] | Some g \<Rightarrow> g) @ [row])"
  by (cases "map_of m (rowKey keyCol row)")
     (simp_all add: groupRow_def rowKey_def Let_def AList.update_conv')

lemma keyedKeys_snoc:
  "keyedKeys keyCol (rows @ [row]) =
     (if rowKey keyCol row = [] then keyedKeys keyCol rows else keyedKeys keyCol rows @ [rowKey keyCol row])"
  by (simp add: keyedKeys_def)

lemma keyGroup_snoc:
  "keyGroup keyCol (rows @ [row]) key =
     (if key \<noteq> [] \<and> rowKey keyCol row = key then keyGroup keyCol rows key @ [row]
      else keyGroup keyCol rows key)"
  by (simp add: keyGroup_def)

lemma fold_groupRow_keys:
  "map fst (fold (groupRow keyCol) rows []) = firstOccurrences (keyedKeys keyCol rows)"
proof (induction rows rule: rev_induct)
  case Nil
  show ?case by (simp add: keyedKeys_def)
next
  case (snoc row rows)
  show ?case
  proof (cases "rowKey keyCol row = []")
    case True
    then show ?thesis using snoc by (simp add: groupRow_unkeyed keyedKeys_snoc)
  next
    case False
    then show ?thesis using snoc
      by (simp add: groupRow_keys keyedKeys_snoc firstOccurrences_snoc)
  qed
qed

lemma fold_groupRow_map_of:
  "map_of (fold (groupRow keyCol) rows []) key =
     (if keyGroup keyCol rows key = [] then None else Some (keyGroup keyCol rows key))"
proof (induction rows arbitrary: key rule: rev_induct)
  case Nil
  show ?case by (simp add: keyGroup_def)
next
  case (snoc row rows)
  show ?case
  proof (cases "rowKey keyCol row = []")
    case True
    then show ?thesis using snoc [of key] by (auto simp: groupRow_unkeyed keyGroup_snoc)
  next
    case False
    then show ?thesis using snoc [of key] snoc [of "rowKey keyCol row"]
      by (simp add: groupRow_map_of keyGroup_snoc)
  qed
qed

lemma fileDataMap_keys:
  "map fst (fileDataMap file candidate) = firstOccurrences (fileKeys file candidate)"
  by (simp add: fileDataMap_def fileKeys_def mappedKeyColumn_def fold_groupRow_keys
        split: option.splits)

lemma fileDataMap_map_of:
  "map_of (fileDataMap file candidate) key =
     (if fileGroup file candidate key = [] then None else Some (fileGroup file candidate key))"
  by (simp add: fileDataMap_def fileGroup_def mappedKeyColumn_def fold_groupRow_map_of
        split: option.splits)

lemma length_keyGroup: "length (keyGroup keyCol rows key) = count_list (keyedKeys keyCol rows) key"
  by (induction rows) (auto simp: keyGroup_def keyedKeys_def)

lemma length_fileGroup: "length (fileGroup file candidate key) = occurrences file candidate key"
  by (simp add: fileGroup_def occurrences_def fileKeys_def length_keyGroup split: option.splits)

lemma groupCount_fileDataMap:
  "groupCount (fileDataMap file candidate) key = occurrences file candidate key"
  by (simp add: groupCount_def fileDataMap_map_of length_fileGroup [symmetric])

lemma firstOccurrences_append:
  "firstOccurrences (xs @ ys) = firstOccurrences xs @ filter (\<lambda>y. y \<notin> set xs) (firstOccurrences ys)"
proof (induction ys rule: rev_induct)
  case Nil
  show ?case by simp
next
  case (snoc y ys)
  have "firstOccurrences (xs @ ys @ [y]) = setAdd y (firstOccurrences (xs @ ys))"
    using firstOccurrences_snoc [of "xs @ ys" y] by simp
  then show ?case
    using snoc by (auto simp: firstOccurrences_snoc setAdd_def)
qed

lemma firstOccurrences_idem: "firstOccurrences (firstOccurrences xs) = firstOccurrences xs"
  by (simp add: firstOccurrences_def distinct_remdups_id)

lemma firstOccurrences_concat:
  "firstOccurrences (concat (map firstOccurrences kss)) = firstOccurrences (concat kss)"
proof (induction kss)
  case Nil
  show ?case by simp
next
  case (Cons ks kss)
  show ?case
    using Cons by (simp add: firstOccurrences_append [of _ "concat _"] firstOccurrences_idem)
qed

lemma collectKeys_files:
  "collectKeys (map (\<lambda>f. fileDataMap f candidate) files)
     = firstOccurrences (concat (map (\<lambda>f. fileKeys f candidate) files))"
proof -
  have "concat (map (map fst) (map (\<lambda>f. fileDataMap f candidate) files))
          = concat (map firstOccurrences (map (\<lambda>f. fileKeys f candidate) files))"
    by (simp add: o_def fileDataMap_keys)
  then show ?thesis
    by (simp only: collectKeys_firstOccurrences firstOccurrences_concat)
qed

lemma set_collectKeys_files:
  "set (collectKeys (map (\<lambda>f. fileDataMap f candidate) files)) = keyUnion files candidate"
  by (simp add: collectKeys_files keyUnion_def)

lemma distinct_collectKeys: "distinct (collectKeys maps)"
  by (simp add: collectKeys_firstOccurrences)

lemma fileKeyCounts_groupSizes:
  "map (\<lambda>f. getKeyCountsFromFile f candidate) files
     = map groupSizes (map (\<lambda>f. fileDataMap f candidate) files)"
  by (simp add: getKeyCounts_groupSizes o_def)

lemma countsAt_files:
  "countsAt (map (\<lambda>f. getKeyCountsFromFile f candidate) files) key
     = map (\<lambda>f. occurrences f candidate key) files"
  unfolding fileKeyCounts_groupSizes countsAt_groupSizes
  by (simp add: o_def groupCount_fileDataMap)

lemma collectKeys_counts:
  "collectKeys (map (\<lambda>f. getKeyCountsFromFile f candidate) files)
     = collectKeys (map (\<lambda>f. fileDataMap f candidate) files)"
  unfolding fileKeyCounts_groupSizes by (rule collectKeys_groupSizes)


lemma stats_over_keyUnion:
  "sum_list (map g (collectKeys (map (\<lambda>f. getKeyCountsFromFile f candidate) files)))
     = sum g (keyUnion files candidate)"
  unfolding collectKeys_counts
  by (simp add: sum_list_distinct_conv_sum_set [OF distinct_collectKeys] set_collectKeys_files)

lemma map_Cons_concat:
  "map ((#) x) (concat (map (\<lambda>a. map (\<lambda>c. a @ [c]) ys) L))
     = concat (map (\<lambda>a. map (\<lambda>c. a @ [c]) ys) (map ((#) x) L))"
  by (simp add: map_concat o_def)

lemma concat_snoc_swap:
  "concat (map (\<lambda>x. map ((#) x) (concat (map (\<lambda>a. map (\<lambda>c. a @ [c]) ys) L))) xs)
     = concat (map (\<lambda>a. map (\<lambda>c. a @ [c]) ys) (concat (map (\<lambda>x. map ((#) x) L) xs)))"
  by (induction xs) (simp_all add: map_Cons_concat)

lemma nestedProduct_snoc:
  "nestedProduct (xss @ [ys]) = concat (map (\<lambda>a. map (\<lambda>c. a @ [c]) ys) (nestedProduct xss))"
proof (induction xss)
  case Nil
  show ?case by simp
next
  case (Cons xs xss)
  show ?case
    by (simp add: Cons concat_snoc_swap)
qed

lemma cartesian_nestedProduct: "cartesian xss = nestedProduct xss"
  by (induction xss rule: rev_induct) (simp_all add: cartesian_Nil cartesian_snoc nestedProduct_snoc)

lemma nestedProduct_member:
  "combo \<in> set (nestedProduct xss) \<longleftrightarrow> list_all2 (\<lambda>c xs. c \<in> set xs) combo xss"
proof (induction xss arbitrary: combo)
  case Nil
  show ?case by auto
next
  case (Cons xs xss)
  show ?case
    by (cases combo) (auto simp: Cons image_iff)
qed

lemma placeholders_fileDataMap:
  "placeholders (map_of (fileDataMap f candidate) key) = slotRows (fileGroup f candidate key)"
  by (simp add: fileDataMap_map_of placeholders_def slotRows_def)

lemma groupCount_zero:
  "groupCount (fileDataMap f candidate) key = 0 \<longleftrightarrow> fileGroup f candidate key = []"
  by (simp add: groupCount_def fileDataMap_map_of)

lemma joinKey_cases:
  assumes len: "length maps = length files"
  shows "joinKey files candidate jt maps key [] =
     (if jt = INNER \<and> 0 \<in> set (map (\<lambda>m. groupCount m key) maps) then []
      else if jt = LEFT \<and> (case map (\<lambda>m. groupCount m key) maps of [] \<Rightarrow> True | c0 # _ \<Rightarrow> c0 = 0) then []
      else map (joinedRowOf files candidate jt key)
             (cartesian (map (\<lambda>m. placeholders (map_of m key)) maps)))"
proof -
  let ?cs = "map (\<lambda>m. groupCount m key) maps"
  have rpf: "rowsPerFile files maps key = map (\<lambda>m. placeholders (map_of m key)) maps"
    by (rule rowsPerFile_map [OF len])
  have has: "map (\<lambda>arr. case arr of [] \<Rightarrow> True | r # _ \<Rightarrow> r \<noteq> None)
                 (map (\<lambda>m. placeholders (map_of m key)) maps) = map (\<lambda>c. c > 0) ?cs"
    by (simp add: o_def hasData_placeholders)
  have ex: "list_ex (\<lambda>hasData. \<not> hasData) (map (\<lambda>c. c > 0) ?cs) = (0 \<in> set ?cs)"
    by (auto simp: list_ex_iff)
  have hd: "(case map (\<lambda>c. c > 0) ?cs of [] \<Rightarrow> True | h # _ \<Rightarrow> \<not> h)
              = (case ?cs of [] \<Rightarrow> True | c0 # _ \<Rightarrow> c0 = 0)"
    by (cases maps) simp_all
  show ?thesis
    unfolding joinKey_def Let_def rpf has ex hd by simp
qed

lemma slots_inner:
  assumes "combo \<in> set (nestedProduct (map (\<lambda>f. slotRows (G f)) files))"
  shows "None \<in> set combo \<longleftrightarrow> (\<exists>f\<in>set files. G f = [])"
  using assms
proof (induction files arbitrary: combo)
  case Nil
  then show ?case by simp
next
  case (Cons f files)
  then show ?case
    by (auto simp: slotRows_def split: if_splits)
qed

lemma slots_left:
  assumes "combo \<in> set (nestedProduct (map (\<lambda>f. slotRows (G f)) (f0 # rest)))"
  shows "(case combo of [] \<Rightarrow> False | r # _ \<Rightarrow> r \<noteq> None) \<longleftrightarrow> G f0 \<noteq> []"
  using assms by (auto simp: slotRows_def split: if_splits)

lemma filter_all: "(\<And>x. x \<in> set xs \<Longrightarrow> P x) \<Longrightarrow> filter P xs = xs"
  by (induction xs) simp_all

lemma filter_none: "(\<And>x. x \<in> set xs \<Longrightarrow> \<not> P x) \<Longrightarrow> filter P xs = []"
  by (induction xs) simp_all

lemma surviving_combinations:
  "filter (survives jt) (nestedProduct (map (\<lambda>f. slotRows (G f)) files)) =
     (if jt = INNER \<and> (\<exists>f\<in>set files. G f = []) then []
      else if jt = LEFT \<and> (case files of [] \<Rightarrow> True | f0 # _ \<Rightarrow> G f0 = []) then []
      else nestedProduct (map (\<lambda>f. slotRows (G f)) files))"
proof (cases jt)
  case INNER
  then show ?thesis
    using slots_inner [of _ G files]
    by (auto simp: survives_def intro!: filter_all filter_none)
next
  case LEFT
  show ?thesis
  proof (cases files)
    case Nil
    then show ?thesis using LEFT by (simp add: survives_def)
  next
    case (Cons f0 rest)
    then show ?thesis
      using LEFT slots_left [of _ G f0 rest]
      by (auto simp: survives_def intro!: filter_all filter_none)
  qed
qed (simp_all add: survives_def)

lemma getKeyColumnForFile_name:
  "name f = name f' \<Longrightarrow> getKeyColumnForFile f candidate = getKeyColumnForFile f' candidate"
  by (simp add: getKeyColumnForFile_def)

lemma comboStep_name:
  "name f = name f' \<Longrightarrow> comboStep candidate (f, r) = comboStep candidate (f', r)"
  by (simp add: comboStep_def addColumns_def getKeyColumnForFile_name [of f f'] fun_eq_iff
        split: option.splits cong: if_cong)

lemma fold_comboStep_names:
  "map name files = map name files' \<Longrightarrow>
   fold (comboStep candidate) (zip files combo) st = fold (comboStep candidate) (zip files' combo) st"
proof (induction files arbitrary: files' combo st)
  case Nil
  then show ?case by simp
next
  case (Cons f files)
  then obtain f' rest where fs: "files' = f' # rest" "name f = name f'" "map name files = map name rest"
    by (cases files') auto
  show ?case
  proof (cases combo)
    case Nil
    then show ?thesis by simp
  next
    case (Cons r rs)
    then show ?thesis
      using Cons.IH [OF fs(3)] comboStep_name [OF fs(2)] by (simp add: fs(1))
  qed
qed

lemma fold_foundFlag_names:
  "map name files = map name files' \<Longrightarrow>
   fold (foundFlag found) files jr = fold (foundFlag found) files' jr"
proof (induction files arbitrary: files' jr)
  case Nil
  then show ?case by simp
next
  case (Cons f files)
  then obtain f' rest where fs: "files' = f' # rest" "name f = name f'" "map name files = map name rest"
    by (cases files') auto
  have "foundFlag found f jr = foundFlag found f' jr"
    by (simp add: foundFlag_def fs(2))
  then show ?case
    using Cons.IH [OF fs(3)] by (simp add: fs(1))
qed

lemma joinedRowOf_names:
  assumes "map name files = map name files'"
  shows "joinedRowOf files candidate jt key combo = joinedRowOf files' candidate jt key combo"
proof -
  have len: "length files = length files'"
    using assms by (rule map_eq_imp_length_eq)
  show ?thesis
    unfolding joinedRowOf_def joinStatus_def fold_comboStep_names [OF assms] len
    by (simp add: fold_foundFlag_names [OF assms] split: prod.splits)
qed

lemma joinDatasets_cong:
  assumes names: "map name files = map name files'"
    and maps: "map (\<lambda>f. fileDataMap f candidate) files = map (\<lambda>f. fileDataMap f candidate) files'"
  shows "joinDatasets files candidate jt = joinDatasets files' candidate jt"
proof -
  have len: "length files = length files'"
    using names by (rule map_eq_imp_length_eq)
  have "joinKey files candidate jt maps' key result = joinKey files' candidate jt maps' key result"
    for maps' key result
    unfolding joinKey_def rowsPerFile_def len
    by (simp add: joinedRowOf_names [OF names] Let_def)
  then have "joinKey files candidate jt = joinKey files' candidate jt"
    by (intro ext)
  then show ?thesis
    unfolding joinDatasets_def maps by simp
qed


lemma fold_groupRow_skip:
  "rowKey keyCol row = [] \<Longrightarrow>
   fold (groupRow keyCol) (pre @ row # post) m = fold (groupRow keyCol) (pre @ post) m"
  by (simp add: groupRow_unkeyed)





lemma map_list_update_same:
  "i < length xs \<Longrightarrow> g y = g (xs ! i) \<Longrightarrow> map g (xs[i := y]) = map g xs"
  by (simp add: map_update list_update_same_conv)


lemma unmapped_fileDataMap: "getKeyColumnForFile f candidate = None \<Longrightarrow> fileDataMap f candidate = []"
  by (simp add: fileDataMap_def)

lemma unmapped_keyCounts: "getKeyColumnForFile f candidate = None \<Longrightarrow> getKeyCountsFromFile f candidate = []"
  by (simp add: getKeyCountsFromFile_def)

lemma unmapped_fileKeys: "getKeyColumnForFile f candidate = None \<Longrightarrow> fileKeys f candidate = []"
  by (simp add: fileKeys_def mappedKeyColumn_def)

lemma unmapped_occurrences: "getKeyColumnForFile f candidate = None \<Longrightarrow> occurrences f candidate key = 0"
  by (simp add: occurrences_def unmapped_fileKeys)

lemma statINNER_sum:
  "statINNER (calculateJoinStats files candidate)
     = (\<Sum>k\<in>keyUnion files candidate. innerTerm (map (\<lambda>f. occurrences f candidate k) files))"
  by (simp add: calculateJoinStats_sums Let_def stats_over_keyUnion countsAt_files)

lemma statOUTER_sum:
  "statOUTER (calculateJoinStats files candidate)
     = (\<Sum>k\<in>keyUnion files candidate. outerTerm (map (\<lambda>f. occurrences f candidate k) files))"
  by (simp add: calculateJoinStats_sums Let_def stats_over_keyUnion countsAt_files)

lemma statLEFT_sum:
  "statLEFT (calculateJoinStats files candidate)
     = (\<Sum>k\<in>keyUnion files candidate. leftTerm (map (\<lambda>f. occurrences f candidate k) files))"
  by (simp add: calculateJoinStats_sums Let_def stats_over_keyUnion countsAt_files)

lemma statADDITIVE_OUTER:
  "statADDITIVE (calculateJoinStats files candidate) = statOUTER (calculateJoinStats files candidate)"
  by (simp add: calculateJoinStats_sums Let_def)

lemma outer_without_unmapped:
  assumes "getKeyColumnForFile f candidate = None"
  shows "statOUTER (calculateJoinStats (A @ f # B) candidate)
           = statOUTER (calculateJoinStats (A @ B) candidate)"
proof -
  have k: "keyUnion (A @ f # B) candidate = keyUnion (A @ B) candidate"
    by (simp add: keyUnion_def unmapped_fileKeys [OF assms])
  have t: "outerTerm (map (\<lambda>f. occurrences f candidate key) (A @ f # B))
             = outerTerm (map (\<lambda>f. occurrences f candidate key) (A @ B))" for key
    by (simp add: outerTerm_def unmapped_occurrences [OF assms] orOne_def)
  show ?thesis
    unfolding statOUTER_sum k t ..
qed

lemma placeholder_position:
  assumes i: "i < length files" and none: "getKeyColumnForFile (files ! i) candidate = None"
    and combo: "combo \<in> set (cartesian (rowsPerFile files (map (\<lambda>f. fileDataMap f candidate) files) key))"
  shows "combo ! i = None"
proof -
  let ?slots = "map (\<lambda>m. placeholders (map_of m key)) (map (\<lambda>f. fileDataMap f candidate) files)"
  have "rowsPerFile files (map (\<lambda>f. fileDataMap f candidate) files) key = ?slots"
    by (rule rowsPerFile_map) simp
  then have "list_all2 (\<lambda>c xs. c \<in> set xs) combo ?slots"
    using combo by (simp only: cartesian_nestedProduct nestedProduct_member)
  then have "combo ! i \<in> set (?slots ! i)"
    using i by (auto dest: list_all2_nthD2)
  then show ?thesis
    using i by (simp add: unmapped_fileDataMap [OF none] placeholders_def)
qed

lemma inner_unmapped:
  assumes i: "i < length files" and none: "getKeyColumnForFile (files ! i) candidate = None"
  shows "joinDatasets files candidate INNER = []"
proof -
  let ?maps = "map (\<lambda>f. fileDataMap f candidate) files"
  have len: "length ?maps = length files" by simp
  have "groupCount (fileDataMap (files ! i) candidate) key = 0" for key
    by (simp add: unmapped_fileDataMap [OF none] groupCount_def)
  then have "0 \<in> set (map (\<lambda>m. groupCount m key) ?maps)" for key
    using i by (force simp: image_iff in_set_conv_nth)
  then have "joinKey files candidate INNER ?maps key [] = []" for key
    by (simp only: joinKey_cases [OF len] simp_thms if_True)
  then show ?thesis
    by (simp add: joinDatasets_concat)
qed

lemma left_unmapped:
  assumes none: "getKeyColumnForFile f0 candidate = None"
  shows "joinDatasets (f0 # rest) candidate LEFT = []"
proof -
  let ?maps = "map (\<lambda>f. fileDataMap f candidate) (f0 # rest)"
  have len: "length ?maps = length (f0 # rest)" by simp
  have "joinKey (f0 # rest) candidate LEFT ?maps key [] = []" for key
    unfolding joinKey_cases [OF len]
    by (simp add: unmapped_fileDataMap [OF none] groupCount_def)
  then show ?thesis
    by (simp add: joinDatasets_concat)
qed

lemma statINNER_unmapped:
  assumes i: "i < length files" and none: "getKeyColumnForFile (files ! i) candidate = None"
  shows "statINNER (calculateJoinStats files candidate) = 0"
proof -
  have "0 \<in> set (map (\<lambda>f. occurrences f candidate key) files)" for key
    using i unmapped_occurrences [OF none, of key] by (force simp: image_iff in_set_conv_nth)
  then show ?thesis
    by (simp only: statINNER_sum innerTerm_zero sum.neutral_const)
qed

lemma statLEFT_unmapped:
  assumes none: "getKeyColumnForFile f0 candidate = None"
  shows "statLEFT (calculateJoinStats (f0 # rest) candidate) = 0"
  by (simp add: statLEFT_sum leftTerm_def unmapped_occurrences [OF none])

lemma cleanRow_primitive: "isPrimitive row \<or> row = JNull \<or> row = JUndefined \<Longrightarrow> cleanRow row = []"
  by (auto simp: cleanRow_def isPrimitive_def typeofObject_def split: jsval.splits)

lemma joinDatasets_nested:
  "joinDatasets files candidate jt =
     concat (map (\<lambda>key. map (joinedRowOf files candidate jt key)
                          (filter (survives jt)
                             (nestedProduct (map (\<lambda>f. slotRows (fileGroup f candidate key)) files))))
                 (firstOccurrences (concat (map (\<lambda>f. fileKeys f candidate) files))))"
proof -
  let ?maps = "map (\<lambda>f. fileDataMap f candidate) files"
  have len: "length ?maps = length files" by simp
  have key: "joinKey files candidate jt ?maps key [] =
       map (joinedRowOf files candidate jt key)
           (filter (survives jt) (nestedProduct (map (\<lambda>f. slotRows (fileGroup f candidate key)) files)))"
    for key
  proof -
    have z: "0 \<in> set (map (\<lambda>m. groupCount m key) ?maps) \<longleftrightarrow> (\<exists>f\<in>set files. fileGroup f candidate key = [])"
      by (auto simp: groupCount_zero image_iff)
    have h: "(case map (\<lambda>m. groupCount m key) ?maps of [] \<Rightarrow> True | c0 # _ \<Rightarrow> c0 = 0)
               = (case files of [] \<Rightarrow> True | f0 # _ \<Rightarrow> fileGroup f0 candidate key = [])"
      by (cases files) (simp_all add: groupCount_zero)
    have c: "cartesian (map (\<lambda>m. placeholders (map_of m key)) ?maps)
               = nestedProduct (map (\<lambda>f. slotRows (fileGroup f candidate key)) files)"
      by (simp add: cartesian_nestedProduct o_def placeholders_fileDataMap)
    show ?thesis
      unfolding joinKey_cases [OF len] z h c
        surviving_combinations [of jt "\<lambda>f. fileGroup f candidate key" files]
      by auto
  qed
  show ?thesis
    unfolding joinDatasets_concat collectKeys_files key ..
qed




































section \<open>The claims\<close>
















text \<open>
  C7.  The output is grouped by key, the keys in the order in which they are first met
  when the files are scanned in their given order; for each key the combinations that
  survive the join type come in the order of the nested product, the first file's rows
  varying slowest and the last file's fastest; and the rows of a file's group
  (\<open>fileGroup\<close>, a \<open>filter\<close> of the file's rows) keep the file's row order.
\<close>

theorem output_order:
  "joinDatasets files candidate jt =
     concat (map (\<lambda>key. map (joinedRowOf files candidate jt key)
                          (filter (survives jt)
                             (nestedProduct (map (\<lambda>f. slotRows (fileGroup f candidate key)) files))))
                 (firstOccurrences (concat (map (\<lambda>f. fileKeys f candidate) files))))"
  by (rule joinDatasets_nested)

theorem output_order_witness:
  "joinDatasets [scenarioCustomers, scenarioOrders] scenarioCandidate LEFT =
     concat (map (\<lambda>key. map (joinedRowOf [scenarioCustomers, scenarioOrders] scenarioCandidate LEFT key)
                          (filter (survives LEFT)
                             (nestedProduct (map (\<lambda>f. slotRows (fileGroup f scenarioCandidate key))
                                [scenarioCustomers, scenarioOrders]))))
                 (firstOccurrences (concat (map (\<lambda>f. fileKeys f scenarioCandidate)
                    [scenarioCustomers, scenarioOrders]))))
   \<and> map (\<lambda>r. (rowGet r ''Customer ID'', rowGet r ''orders - OrderID''))
         (joinDatasets [scenarioCustomers, scenarioOrders] scenarioCandidate LEFT)
       = [(JStr ''101'', JStr ''A1''), (JStr ''101'', JStr ''A2''), (JStr ''102'', JStr ''B1''),
          (JStr ''103'', JStr ''C1''), (JStr ''103'', JStr ''C2''), (JStr ''104'', JUndefined),
          (JStr ''105'', JUndefined)]"
proof -
  have "map (\<lambda>r. (rowGet r ''Customer ID'', rowGet r ''orders - OrderID''))
         (joinDatasets [scenarioCustomers, scenarioOrders] scenarioCandidate LEFT)
       = [(JStr ''101'', JStr ''A1''), (JStr ''101'', JStr ''A2''), (JStr ''102'', JStr ''B1''),
          (JStr ''103'', JStr ''C1''), (JStr ''103'', JStr ''C2''), (JStr ''104'', JUndefined),
          (JStr ''105'', JUndefined)]"
    by code_simp
  with output_order [of "[scenarioCustomers, scenarioOrders]" scenarioCandidate LEFT]
  show ?thesis by blast
qed

text \<open>
  C8.  A file for which the candidate has no column mapping is indexed to the empty map,
  by the estimator and by the executor, and nothing fails: both are total functions.
  The file is missing for every key: the OUTER and ADDITIVE estimates are those of the
  other files alone (its factor is 1), every combination has the placeholder at its position,
  the INNER output is empty, so is the LEFT output when it is the first file, and its rows
  are never read, whatever the join type.
\<close>

theorem unmapped_dataset_always_missing:
  assumes i: "i < length files" and none: "getKeyColumnForFile (files ! i) candidate = None"
  shows "fileDataMap (files ! i) candidate = [] \<and> getKeyCountsFromFile (files ! i) candidate = []
    \<and> statOUTER (calculateJoinStats files candidate)
        = statOUTER (calculateJoinStats (take i files @ drop (Suc i) files) candidate)
    \<and> statADDITIVE (calculateJoinStats files candidate)
        = statADDITIVE (calculateJoinStats (take i files @ drop (Suc i) files) candidate)
    \<and> (\<forall>key combo.
          combo \<in> set (cartesian (rowsPerFile files (map (\<lambda>f. fileDataMap f candidate) files) key))
          \<longrightarrow> combo ! i = None)
    \<and> joinDatasets files candidate INNER = [] \<and> statINNER (calculateJoinStats files candidate) = 0
    \<and> (i = 0 \<longrightarrow> joinDatasets files candidate LEFT = []
                  \<and> statLEFT (calculateJoinStats files candidate) = 0)
    \<and> joinDatasets files candidate jt
        = joinDatasets (files[i := (files ! i)\<lparr>data := rows\<rparr>]) candidate jt"
proof -
  have split: "files = take i files @ files ! i # drop (Suc i) files"
    using i by (rule id_take_nth_drop)
  have o: "statOUTER (calculateJoinStats files candidate)
        = statOUTER (calculateJoinStats (take i files @ drop (Suc i) files) candidate)"
    using outer_without_unmapped [OF none, of "take i files" "drop (Suc i) files"] split by simp
  have p: "\<forall>key combo.
          combo \<in> set (cartesian (rowsPerFile files (map (\<lambda>f. fileDataMap f candidate) files) key))
          \<longrightarrow> combo ! i = None"
    using placeholder_position [OF i none] by blast
  have l: "i = 0 \<longrightarrow> joinDatasets files candidate LEFT = []
                  \<and> statLEFT (calculateJoinStats files candidate) = 0"
  proof
    assume z: "i = 0"
    then obtain f0 rest where fs: "files = f0 # rest" using i by (cases files) auto
    with z none have "getKeyColumnForFile f0 candidate = None" by simp
    then show "joinDatasets files candidate LEFT = [] \<and> statLEFT (calculateJoinStats files candidate) = 0"
      unfolding fs by (simp add: left_unmapped statLEFT_unmapped)
  qed
  let ?f' = "(files ! i)\<lparr>data := rows\<rparr>"
  have none': "getKeyColumnForFile ?f' candidate = None"
    using none by (simp add: getKeyColumnForFile_def)
  have n: "name ?f' = name (files ! i)" by simp
  have m: "fileDataMap ?f' candidate = fileDataMap (files ! i) candidate"
    by (simp only: unmapped_fileDataMap [OF none] unmapped_fileDataMap [OF none'])
  have j: "joinDatasets files candidate jt = joinDatasets (files[i := ?f']) candidate jt"
    by (rule joinDatasets_cong)
       (simp_all only: map_list_update_same [OF i n] map_list_update_same [OF i m])
  from o p l j unmapped_fileDataMap [OF none] unmapped_keyCounts [OF none]
    inner_unmapped [OF i none] statINNER_unmapped [OF i none]
  show ?thesis
    by (simp only: statADDITIVE_OUTER simp_thms)
qed

theorem unmapped_dataset_always_missing_witness:
  "getKeyColumnForFile ([scenarioCustomers, scenarioOrders] ! 1) customersOnlyCandidate = None
   \<and> fileDataMap ([scenarioCustomers, scenarioOrders] ! 1) customersOnlyCandidate = []
   \<and> joinDatasets [scenarioCustomers, scenarioOrders] customersOnlyCandidate INNER = []
   \<and> statOUTER (calculateJoinStats [scenarioCustomers, scenarioOrders] customersOnlyCandidate) = 5
   \<and> map (\<lambda>r. map fst r) (joinDatasets [scenarioCustomers, scenarioOrders] customersOnlyCandidate LEFT)
       = replicate 5 [''Customer ID'', ''customers - Name'']
   \<and> [Some (customerRow 101 ''Ann''), None]
       \<in> set (cartesian (rowsPerFile [scenarioCustomers, scenarioOrders]
                 (map (\<lambda>f. fileDataMap f customersOnlyCandidate) [scenarioCustomers, scenarioOrders])
                 ''101''))
   \<and> [Some (customerRow 101 ''Ann''), None] ! 1 = None
   \<and> getKeyColumnForFile ([scenarioOrders, scenarioCustomers] ! 0) customersOnlyCandidate = None
   \<and> joinDatasets [scenarioOrders, scenarioCustomers] customersOnlyCandidate LEFT = []
   \<and> length (joinDatasets [scenarioOrders, scenarioCustomers] customersOnlyCandidate OUTER) = 5"
proof -
  have h1: "1 < length [scenarioCustomers, scenarioOrders]" by simp
  have h2: "getKeyColumnForFile ([scenarioCustomers, scenarioOrders] ! 1) customersOnlyCandidate = None"
    by (simp add: getKeyColumnForFile_def scenarioOrders_def customersOnlyCandidate_def)
  have o: "statOUTER (calculateJoinStats [scenarioCustomers, scenarioOrders] customersOnlyCandidate) = 5"
    by code_simp
  have l: "map (\<lambda>r. map fst r) (joinDatasets [scenarioCustomers, scenarioOrders] customersOnlyCandidate LEFT)
       = replicate 5 [''Customer ID'', ''customers - Name'']"
    by code_simp
  have c: "[Some (customerRow 101 ''Ann''), None]
       \<in> set (cartesian (rowsPerFile [scenarioCustomers, scenarioOrders]
                 (map (\<lambda>f. fileDataMap f customersOnlyCandidate) [scenarioCustomers, scenarioOrders])
                 ''101''))"
    by code_simp
  have g1: "0 < length [scenarioOrders, scenarioCustomers]" by simp
  have g2: "getKeyColumnForFile ([scenarioOrders, scenarioCustomers] ! 0) customersOnlyCandidate = None"
    by (simp add: getKeyColumnForFile_def scenarioOrders_def customersOnlyCandidate_def)
  have u: "length (joinDatasets [scenarioOrders, scenarioCustomers] customersOnlyCandidate OUTER) = 5"
    by code_simp
  note t = unmapped_dataset_always_missing [OF h1 h2]
  from t c have p: "[Some (customerRow 101 ''Ann''), None] ! 1 = None"
    by blast
  from unmapped_dataset_always_missing [OF g1 g2]
  have e: "joinDatasets [scenarioOrders, scenarioCustomers] customersOnlyCandidate LEFT = []"
    by blast
  from t h2 o l c p g2 e u show ?thesis
    by blast
qed

text \<open>
  C9 (amended).  Handling the response of the semantic merge raises no error: an absent
  text, a text that cannot be parsed and a parsed value that is not an array all give
  the empty result, and an array gives one sanitized record per element.  An element
  that is a string, a number, a boolean or \<open>null\<close> gives the empty record.  (An element
  that is itself an array is not emptied: it gives a record keyed by its indices, as the
  counterexample shows.)
\<close>

theorem semantic_merge_response:
  "(\<exists>rows. generateSemanticMerge parse (ApiResponse text) = Inr rows)
   \<and> generateSemanticMerge parse (ApiResponse None) = Inr []
   \<and> (parse t = None \<longrightarrow> generateSemanticMerge parse (ApiResponse (Some t)) = Inr [])
   \<and> (parse t = Some v \<and> (\<forall>rows. v \<noteq> JArr rows)
        \<longrightarrow> generateSemanticMerge parse (ApiResponse (Some t)) = Inr [])
   \<and> (t \<noteq> [] \<and> parse t = Some (JArr rows)
        \<longrightarrow> generateSemanticMerge parse (ApiResponse (Some t)) = Inr (map cleanRow rows))
   \<and> (isPrimitive row \<or> row = JNull \<longrightarrow> cleanRow row = [])"
proof -
  have a: "\<exists>rows. generateSemanticMerge parse (ApiResponse text) = Inr rows"
    by (simp add: generateSemanticMerge_def split: option.splits jsval.splits)
  have b: "parse t = Some v \<and> (\<forall>rows. v \<noteq> JArr rows)
        \<longrightarrow> generateSemanticMerge parse (ApiResponse (Some t)) = Inr []"
    by (cases v) (simp_all add: generateSemanticMerge_def)
  have c: "isPrimitive row \<or> row = JNull \<longrightarrow> cleanRow row = []"
    using cleanRow_primitive [of row] by blast
  have d: "generateSemanticMerge parse (ApiResponse None) = Inr []"
    by (simp add: generateSemanticMerge_def)
  have e: "parse t = None \<longrightarrow> generateSemanticMerge parse (ApiResponse (Some t)) = Inr []"
    by (simp add: generateSemanticMerge_def)
  have f: "t \<noteq> [] \<and> parse t = Some (JArr rows)
        \<longrightarrow> generateSemanticMerge parse (ApiResponse (Some t)) = Inr (map cleanRow rows)"
    by (simp add: generateSemanticMerge_def)
  from a b c d e f show ?thesis by blast
qed

theorem semantic_merge_response_witness:
  "toyParse ''not json'' = None
   \<and> generateSemanticMerge toyParse (ApiResponse (Some ''not json'')) = Inr []
   \<and> toyParse ''{\"rows\":[]}'' = Some (JObj [(''rows'', JArr [])])
   \<and> generateSemanticMerge toyParse (ApiResponse (Some ''{\"rows\":[]}'')) = Inr []
   \<and> toyParse ''[\"x\",null,{\"a\":[1]}]'' = Some (JArr [JStr ''x'', JNull, JObj [(''a'', JArr [JNum 1])]])
   \<and> generateSemanticMerge toyParse (ApiResponse (Some ''[\"x\",null,{\"a\":[1]}]''))
       = Inr (map cleanRow [JStr ''x'', JNull, JObj [(''a'', JArr [JNum 1])]])
   \<and> map cleanRow [JStr ''x'', JNull, JObj [(''a'', JArr [JNum 1])]] = [[], [], [(''a'', JStr ''1'')]]
   \<and> isPrimitive (JStr ''x'') \<and> cleanRow (JStr ''x'') = []"
proof -
  have p1: "toyParse ''not json'' = None" by (simp add: toyParse_def)
  have p2: "toyParse ''{\"rows\":[]}'' = Some (JObj [(''rows'', JArr [])])" by (simp add: toyParse_def)
  have p2': "\<forall>rows. JObj [(''rows'', JArr [])] \<noteq> JArr rows" by simp
  have p3: "toyParse ''[\"x\",null,{\"a\":[1]}]'' = Some (JArr [JStr ''x'', JNull, JObj [(''a'', JArr [JNum 1])]])"
    by (simp add: toyParse_def)
  have p3': "''[\"x\",null,{\"a\":[1]}]'' \<noteq> []" by simp
  have p4: "isPrimitive (JStr ''x'')" by (simp add: isPrimitive_def)
  have e: "map cleanRow [JStr ''x'', JNull, JObj [(''a'', JArr [JNum 1])]] = [[], [], [(''a'', JStr ''1'')]]"
    by code_simp
  from semantic_merge_response [of toyParse _ "''not json''" _ _ _] p1
  have r1: "generateSemanticMerge toyParse (ApiResponse (Some ''not json'')) = Inr []"
    by blast
  from semantic_merge_response [of toyParse _ "''{\"rows\":[]}''" "JObj [(''rows'', JArr [])]" _ _] p2 p2'
  have r2: "generateSemanticMerge toyParse (ApiResponse (Some ''{\"rows\":[]}'')) = Inr []"
    by blast
  from semantic_merge_response [of toyParse _ "''[\"x\",null,{\"a\":[1]}]''" _
         "[JStr ''x'', JNull, JObj [(''a'', JArr [JNum 1])]]" "JStr ''x''"] p3 p3' p4
  have r3: "generateSemanticMerge toyParse (ApiResponse (Some ''[\"x\",null,{\"a\":[1]}]''))
       = Inr (map cleanRow [JStr ''x'', JNull, JObj [(''a'', JArr [JNum 1])]])"
    and r4: "cleanRow (JStr ''x'') = []"
    by blast+
  from p1 p2 p3 p4 r1 r2 r3 r4 e show ?thesis by blast
qed

theorem semantic_merge_array_element_counterexample:
  "toyParse ''[[7]]'' = Some (JArr [JArr [JNum 7]])
   \<and> generateSemanticMerge toyParse (ApiResponse (Some ''[[7]]'')) = Inr [[(''0'', JNum 7)]]"
  by code_simp




end
